theory Spec2Isabelle
  imports Complex_Main
begin

section \<open>Request orchestration of the face-analysis service (modules/processing.py)\<close>

text \<open>
  The development embeds \<^verbatim>\<open>Serializer\<close>, \<^verbatim>\<open>serialize_face\<close> and the methods
  \<^verbatim>\<open>embed_crops\<close>, \<^verbatim>\<open>embed\<close> and \<^verbatim>\<open>extract\<close> of class \<^verbatim>\<open>Processing\<close>.

  Conventions of the embedding:
  \<^item> A float stored in a face (a score, a coordinate) is the \<open>real\<close> it denotes; NaN and
    infinities as stored values are outside the model. Arithmetic on floats is not real
    arithmetic: the one subtraction of this module is the collaborator \<open>float_sub\<close>,
    whose result is the rounded difference or an overflow.
  \<^item> A raised exception is a value \<open>Inl e\<close> of \<open>exn + 'a\<close>. Only exceptions of class
    \<^verbatim>\<open>Exception\<close> are modelled, the ones a clause \<^verbatim>\<open>except Exception\<close> catches;
    interpreter signals deriving from \<^verbatim>\<open>BaseException\<close> alone are not.
  \<^item> The outside world (the clock, the state of the face-analysis model, the position of
    the lazy face sequence) is a value of a type \<open>'w\<close> that every effectful call takes
    and returns.
  \<^item> Writes to standard output and to the debug log (\<^verbatim>\<open>print(tb)\<close>,
    \<^verbatim>\<open>logging.debug\<close>) are not part of any returned value and are left out.
\<close>

subsection \<open>Values and exceptions\<close>

datatype exn =
  AttributeError | IndexError | StopIteration | OverflowError | OtherError string

text \<open>The values stored in a face dictionary: \<^verbatim>\<open>None\<close>, numbers, strings and (nested) lists.\<close>

datatype jval = JNone | JInt int | JFloat real | JStr string | JList "jval list"

text \<open>The truth value Python gives an optional number: \<^verbatim>\<open>None\<close> and zero are false.\<close>

definition truthy :: "real option \<Rightarrow> bool" where
  "truthy x = (case x of None \<Rightarrow> False | Some v \<Rightarrow> v \<noteq> 0)"

text \<open>Truncation toward zero, as \<^verbatim>\<open>int(x)\<close> and a C cast do it on a finite float.\<close>

definition py_int :: "real \<Rightarrow> int" where
  "py_int x = (if 0 \<le> x then \<lfloor>x\<rfloor> else \<lceil>x\<rceil>)"

text \<open>
  The value of a floating-point operation on two finite floats: a finite float, or an
  infinity when the result overflows the format.
\<close>

datatype float_result = Finite real | Overflow

text \<open>\<^verbatim>\<open>int(x)\<close> on such a value: an infinity raises \<^verbatim>\<open>OverflowError\<close>.\<close>

definition py_int_result :: "float_result \<Rightarrow> exn + int" where
  "py_int_result x = (case x of Finite v \<Rightarrow> Inr (py_int v) | Overflow \<Rightarrow> Inl OverflowError)"

definition tolist :: "real list \<Rightarrow> jval" where
  "tolist a = JList (map JFloat a)"

text \<open>\<^verbatim>\<open>a[i]\<close> on a one-dimensional array, for a non-negative literal index.\<close>

definition getitem :: "real list \<Rightarrow> nat \<Rightarrow> exn + real" where
  "getitem a i = (if i < length a then Inr (a ! i) else Inl IndexError)"

subsection \<open>Data model\<close>

text \<open>
  \<^verbatim>\<open>Face\<close> is imported from \<^verbatim>\<open>face_model\<close>; the record holds the attributes this module
  reads. Every attribute may be \<^verbatim>\<open>None\<close>. \<open>num_det\<close>, \<open>gender\<close> and \<open>age\<close> are copied
  verbatim into the output, so they are kept as output values.
\<close>

record 'img Face =
  bbox :: "real list option"
  landmark :: "real list list option"
  det_score :: "real option"
  gender :: jval
  age :: jval
  embedding_norm :: "real option"
  normed_embedding :: "real list option"
  facedata :: "'img option"
  num_det :: jval
  mask_prob :: "real option"

text \<open>\<^verbatim>\<open>Face(facedata=x)\<close>: every other attribute takes its default \<^verbatim>\<open>None\<close>.\<close>

definition Face_of_facedata :: "'img option \<Rightarrow> 'img Face" where
  "Face_of_facedata x =
     \<lparr>bbox = None, landmark = None, det_score = None, gender = JNone, age = JNone,
      embedding_norm = None, normed_embedding = None, facedata = x, num_det = JNone,
      mask_prob = None\<rparr>"

text \<open>
  A face dictionary maps its keys to values; a key that was never inserted maps to \<open>None\<close>
  of the option type, a key holding Python's \<^verbatim>\<open>None\<close> maps to \<open>Some JNone\<close>.
\<close>

type_synonym face_dict = "string \<rightharpoonup> jval"

text \<open>One element of the list \<^verbatim>\<open>get_images\<close> returns: keys \<^verbatim>\<open>data\<close> and \<^verbatim>\<open>traceback\<close>.\<close>

record 'img image_input =
  data :: "'img option"
  traceback :: "string option"

text \<open>
  The per-image dictionary \<^verbatim>\<open>_faces_dict\<close> of \<^verbatim>\<open>embed\<close>. The key \<^verbatim>\<open>traceback\<close> exists only
  after a failure: \<open>None\<close> is the missing key.
\<close>

record faces_dict =
  status :: string
  took_ms :: real
  faces :: "face_dict list"
  traceback :: "string option"

text \<open>The dictionary \<^verbatim>\<open>output['took']\<close>: each key exists once it has been assigned.\<close>

record took_dict =
  total_ms :: "real option"
  read_imgs_ms :: "real option"
  embed_all_ms :: "real option"

text \<open>The dictionary \<^verbatim>\<open>output\<close> of \<^verbatim>\<open>embed\<close>.\<close>

record batch_result =
  took :: took_dict
  data :: "faces_dict list"

text \<open>
  The dictionary \<^verbatim>\<open>output\<close> of \<^verbatim>\<open>embed_crops\<close>: \<open>took_ms\<close> starts as \<^verbatim>\<open>None\<close>, the key
  \<^verbatim>\<open>traceback\<close> exists only after a failure.
\<close>

record crops_output =
  took_ms :: "real option"
  data :: "face_dict list"
  status :: string
  traceback :: "string option"

text \<open>What \<^verbatim>\<open>extract\<close> can return: one shape per return statement and serializer.\<close>

datatype response =
  Crops crops_output
  | V1 "face_dict list list"
  | V2 batch_result

subsection \<open>External collaborators\<close>

text \<open>
  The keyword arguments \<^verbatim>\<open>embed\<close> passes to \<^verbatim>\<open>self.model.get\<close>; each field is the
  keyword's name after \<open>get_\<close>.
\<close>

record get_opts =
  get_max_size :: "int list option"
  get_threshold :: real
  get_return_face_data :: bool
  get_extract_embedding :: bool
  get_extract_ga :: bool
  get_limit_faces :: int

text \<open>
  The collaborators this module calls but does not define, as parameters:
  \<^item> \<open>time\<close>: \<^verbatim>\<open>time.time()\<close>;
  \<^item> \<open>format_exc\<close>: \<^verbatim>\<open>traceback.format_exc()\<close> for the exception being handled;
  \<^item> \<open>imencode_b64\<close>: the expression
    \<^verbatim>\<open>base64.b64encode(cv2.imencode('.jpg', x)[1].tostring()).decode('utf-8')\<close>, which may raise;
  \<^item> \<open>float_sub\<close>: the subtraction \<^verbatim>\<open>a - b\<close> of two scalars of the box array, in the
    floating-point format of that array;
  \<^item> \<open>cast_overflow\<close>: what the cast of \<^verbatim>\<open>astype(int)\<close> leaves for a float whose integer
    part does not fit 64 bits (the platform decides);
  \<^item> \<open>model_get\<close>: \<^verbatim>\<open>await self.model.get(image, ...)\<close>, which may raise;
  \<^item> \<open>process_faces\<close>: the call \<^verbatim>\<open>self.model.process_faces(iterator, ...)\<close>, which creates
    the lazy sequence of analysed faces (the faces of the iterator are handed over as a list);
  \<^item> \<open>next_face\<close>: \<^verbatim>\<open>next(faces)\<close> on that sequence, which may raise, \<^verbatim>\<open>StopIteration\<close> included;
  \<^item> \<open>get_images\<close>: \<^verbatim>\<open>await get_images(images)\<close>.

  Modelled from the spec: \<open>get_images\<close> and \<open>process_faces\<close> are not in this module. By the
  contract of section 6 the loader returns one entry per descriptor, each carrying pixel
  data or a captured load failure, and the bulk variant returns a lazy sequence; so both
  calls return without raising here.
\<close>

record ('w, 'img, 'req) collaborators =
  time :: "'w \<Rightarrow> real \<times> 'w"
  format_exc :: "exn \<Rightarrow> string"
  imencode_b64 :: "'img option \<Rightarrow> exn + string"
  float_sub :: "real \<Rightarrow> real \<Rightarrow> float_result"
  cast_overflow :: "real \<Rightarrow> int"
  model_get :: "'img option \<Rightarrow> get_opts \<Rightarrow> 'w \<Rightarrow> (exn + 'img Face list) \<times> 'w"
  process_faces :: "'img Face list \<Rightarrow> bool \<Rightarrow> bool \<Rightarrow> bool \<Rightarrow> 'w \<Rightarrow> 'w"
  next_face :: "'w \<Rightarrow> (exn + 'img Face) \<times> 'w"
  get_images :: "'req \<Rightarrow> 'w \<Rightarrow> 'img image_input list \<times> 'w"

subsection \<open>Serializer\<close>

text \<open>
  \<^verbatim>\<open>data.get('data', [])\<close> and \<^verbatim>\<open>img.get('faces')\<close> read keys that every \<open>batch_result\<close> and
  every \<open>faces_dict\<close> has.
\<close>

definition serializer_v1 :: "batch_result \<Rightarrow> response" where
  "serializer_v1 d = (let d' = batch_result.data d in V1 (map faces d'))"

definition serializer_v2 :: "batch_result \<Rightarrow> response" where
  "serializer_v2 d = V2 d"

definition get_serializer :: "string \<Rightarrow> batch_result \<Rightarrow> response" where
  "get_serializer api_ver = (if api_ver = ''1'' then serializer_v1 else serializer_v2)"

definition serialize :: "batch_result \<Rightarrow> string \<Rightarrow> response" where
  "serialize d api_ver = (let serializer = get_serializer api_ver in serializer d)"

subsection \<open>serialize\_face\<close>

text \<open>
  The four conditional blocks of \<^verbatim>\<open>serialize_face\<close>, in source order. Each takes the
  dictionary built so far; the arguments of an \<^verbatim>\<open>update\<close> are evaluated left to right, an
  attribute access on \<^verbatim>\<open>None\<close> raises \<^verbatim>\<open>AttributeError\<close>.
\<close>

text \<open>
  \<^verbatim>\<open>a.astype(int).tolist()\<close> on an array of one and of two dimensions. The cast is the C
  cast to a 64-bit integer: truncation toward zero when the result fits.
\<close>

definition astype_int :: "('w, 'img, 'req) collaborators \<Rightarrow> real \<Rightarrow> int" where
  "astype_int env x =
     (if - (2 ^ 63) \<le> py_int x \<and> py_int x < 2 ^ 63 then py_int x else cast_overflow env x)"

definition astype_int_tolist :: "('w, 'img, 'req) collaborators \<Rightarrow> real list \<Rightarrow> jval" where
  "astype_int_tolist env a = JList (map (\<lambda>x. JInt (astype_int env x)) a)"

definition astype_int_tolist2 ::
  "('w, 'img, 'req) collaborators \<Rightarrow> real list list \<Rightarrow> jval" where
  "astype_int_tolist2 env a = JList (map (astype_int_tolist env) a)"

definition init_face_dict :: "'img Face \<Rightarrow> face_dict" where
  "init_face_dict face =
     [''det'' \<mapsto> num_det face, ''prob'' \<mapsto> JNone, ''bbox'' \<mapsto> JNone, ''size'' \<mapsto> JNone,
      ''landmarks'' \<mapsto> JNone, ''gender'' \<mapsto> gender face, ''age'' \<mapsto> age face,
      ''mask_prob'' \<mapsto> JNone, ''norm'' \<mapsto> JNone, ''vec'' \<mapsto> JNone]"

definition put_embedding :: "'img Face \<Rightarrow> face_dict \<Rightarrow> exn + face_dict" where
  "put_embedding face d =
     (if truthy (embedding_norm face) then
        (case normed_embedding face of
           None \<Rightarrow> Inl AttributeError
         | Some v \<Rightarrow> Inr (d(''vec'' \<mapsto> tolist v, ''norm'' \<mapsto> JFloat (the (embedding_norm face)))))
      else Inr d)"

definition put_landmarks ::
  "('w, 'img, 'req) collaborators \<Rightarrow> 'img Face \<Rightarrow> bool \<Rightarrow> face_dict \<Rightarrow> exn + face_dict" where
  "put_landmarks env face return_landmarks d =
     (if return_landmarks then
        (case landmark face of
           None \<Rightarrow> Inl AttributeError
         | Some l \<Rightarrow> Inr (d(''landmarks'' \<mapsto> astype_int_tolist2 env l)))
      else Inr d)"

definition put_detection ::
  "('w, 'img, 'req) collaborators \<Rightarrow> 'img Face \<Rightarrow> bool \<Rightarrow> face_dict \<Rightarrow> exn + face_dict" where
  "put_detection env face return_landmarks d =
     (if truthy (det_score face) then
        (case bbox face of
           None \<Rightarrow> Inl AttributeError
         | Some b \<Rightarrow>
             (case getitem b 2 of
                Inl e \<Rightarrow> Inl e
              | Inr r \<Rightarrow>
                  (case getitem b 0 of
                     Inl e \<Rightarrow> Inl e
                   | Inr l \<Rightarrow>
                       (case py_int_result (float_sub env r l) of
                          Inl e \<Rightarrow> Inl e
                        | Inr n \<Rightarrow>
                            put_landmarks env face return_landmarks
                              (d(''prob'' \<mapsto> JFloat (the (det_score face)),
                                 ''bbox'' \<mapsto> astype_int_tolist env b,
                                 ''size'' \<mapsto> JInt n))))))
      else Inr d)"

definition put_mask :: "'img Face \<Rightarrow> face_dict \<Rightarrow> face_dict" where
  "put_mask face d =
     (if truthy (mask_prob face) then d(''mask_prob'' \<mapsto> JFloat (the (mask_prob face))) else d)"

definition put_facedata ::
  "('w, 'img, 'req) collaborators \<Rightarrow> 'img Face \<Rightarrow> bool \<Rightarrow> face_dict \<Rightarrow> exn + face_dict" where
  "put_facedata env face return_face_data d =
     (if return_face_data then
        (case imencode_b64 env (facedata face) of
           Inl e \<Rightarrow> Inl e
         | Inr s \<Rightarrow> Inr (d(''facedata'' \<mapsto> JStr s)))
      else Inr d)"

definition serialize_face ::
  "('w, 'img, 'req) collaborators \<Rightarrow> 'img Face \<Rightarrow> bool \<Rightarrow> bool \<Rightarrow> exn + face_dict" where
  "serialize_face env face return_face_data return_landmarks =
     (case put_embedding face (init_face_dict face) of
        Inl e \<Rightarrow> Inl e
      | Inr d1 \<Rightarrow>
          (case put_detection env face return_landmarks d1 of
             Inl e \<Rightarrow> Inl e
           | Inr d2 \<Rightarrow> put_facedata env face return_face_data (put_mask face d2)))"

subsection \<open>Raising and catching\<close>

text \<open>
  A statement that may raise returns \<open>Inl e\<close> or \<open>Inr v\<close> together with the state it left
  behind: what it had already mutated stays mutated. \<^verbatim>\<open>try: body except Exception: handler\<close>
  runs the handler on the state the body left, for every modelled exception.
\<close>

definition try_except ::
  "(exn + 'a) \<times> 's \<Rightarrow> (exn \<Rightarrow> 's \<Rightarrow> (exn + 'a) \<times> 's) \<Rightarrow> (exn + 'a) \<times> 's" where
  "try_except body handler =
     (case body of (Inl e, s) \<Rightarrow> handler e s | (Inr v, s) \<Rightarrow> (Inr v, s))"

subsection \<open>Processing.embed\<close>

text \<open>The inner loop \<^verbatim>\<open>for idx, face in enumerate(faces)\<close>, appending to \<^verbatim>\<open>_faces_dict['faces']\<close>.\<close>

fun serialize_faces ::
  "('w, 'img, 'req) collaborators \<Rightarrow> bool \<Rightarrow> bool \<Rightarrow> 'img Face list \<Rightarrow> faces_dict
     \<Rightarrow> (exn + unit) \<times> faces_dict" where
  "serialize_faces env return_face_data return_landmarks [] d = (Inr (), d)"
| "serialize_faces env return_face_data return_landmarks (face # rest) d =
     (case serialize_face env face return_face_data return_landmarks of
        Inl e \<Rightarrow> (Inl e, d)
      | Inr fd \<Rightarrow>
          serialize_faces env return_face_data return_landmarks rest
            (d\<lparr>faces := faces d @ [fd]\<rparr>))"

text \<open>The body of the \<^verbatim>\<open>try\<close> block, on the state \<open>(_faces_dict, world)\<close>.\<close>

definition embed_try ::
  "('w, 'img, 'req) collaborators \<Rightarrow> get_opts \<Rightarrow> bool \<Rightarrow> 'img image_input
     \<Rightarrow> faces_dict \<Rightarrow> 'w \<Rightarrow> (exn + unit) \<times> faces_dict \<times> 'w" where
  "embed_try env kw return_landmarks image_data d w =
     (let (t1, w1) = time env w in
      if image_input.traceback image_data \<noteq> None then
        (Inr (), d\<lparr>faces_dict.status := ''failed'',
                    faces_dict.traceback := image_input.traceback image_data\<rparr>, w1)
      else
        (case model_get env (image_input.data image_data) kw w1 of
           (Inl e, w2) \<Rightarrow> (Inl e, d, w2)
         | (Inr fs, w2) \<Rightarrow>
             (case serialize_faces env (get_return_face_data kw) return_landmarks fs d of
                (Inl e, d') \<Rightarrow> (Inl e, d', w2)
              | (Inr u, d') \<Rightarrow>
                  (let (t2, w3) = time env w2; took_image = t2 - t1 in
                   (Inr (), d'\<lparr>faces_dict.took_ms := took_image * 1000,
                                faces_dict.status := ''ok''\<rparr>, w3)))))"

text \<open>The \<^verbatim>\<open>except Exception\<close> clause of \<^verbatim>\<open>embed\<close>.\<close>

definition embed_except ::
  "('w, 'img, 'req) collaborators \<Rightarrow> exn \<Rightarrow> faces_dict \<times> 'w \<Rightarrow> (exn + unit) \<times> faces_dict \<times> 'w" where
  "embed_except env e s =
     (case s of (d, w) \<Rightarrow>
        (let tb = format_exc env e in
         (Inr (), d\<lparr>faces_dict.status := ''failed'', faces_dict.traceback := Some tb\<rparr>, w)))"

text \<open>\<^verbatim>\<open>dict(status='', took_ms=0., faces=[])\<close>\<close>

definition new_faces_dict :: faces_dict where
  "new_faces_dict =
     \<lparr>faces_dict.status = '''', faces_dict.took_ms = 0, faces = [],
      faces_dict.traceback = None\<rparr>"

text \<open>One pass of the loop body up to the \<^verbatim>\<open>append\<close>: the new \<^verbatim>\<open>_faces_dict\<close>, or an exception.\<close>

definition embed_image ::
  "('w, 'img, 'req) collaborators \<Rightarrow> get_opts \<Rightarrow> bool \<Rightarrow> 'img image_input \<Rightarrow> 'w
     \<Rightarrow> (exn + faces_dict) \<times> 'w" where
  "embed_image env kw return_landmarks image_data w =
     (let d0 = new_faces_dict in
      case try_except (embed_try env kw return_landmarks image_data d0 w) (embed_except env) of
        (Inl e, d, w') \<Rightarrow> (Inl e, w')
      | (Inr u, d, w') \<Rightarrow> (Inr d, w'))"

fun embed_loop ::
  "('w, 'img, 'req) collaborators \<Rightarrow> get_opts \<Rightarrow> bool \<Rightarrow> 'img image_input list
     \<Rightarrow> batch_result \<Rightarrow> 'w \<Rightarrow> (exn + batch_result) \<times> 'w" where
  "embed_loop env kw return_landmarks [] out w = (Inr out, w)"
| "embed_loop env kw return_landmarks (image_data # rest) out w =
     (case embed_image env kw return_landmarks image_data w of
        (Inl e, w') \<Rightarrow> (Inl e, w')
      | (Inr d, w') \<Rightarrow>
          embed_loop env kw return_landmarks rest
            (out\<lparr>batch_result.data := batch_result.data out @ [d]\<rparr>) w')"

text \<open>\<^verbatim>\<open>dict(took={}, data=[])\<close>\<close>

definition new_batch_result :: batch_result where
  "new_batch_result =
     \<lparr>took = \<lparr>total_ms = None, read_imgs_ms = None, embed_all_ms = None\<rparr>,
      batch_result.data = []\<rparr>"

text \<open>The keyword arguments of the call \<^verbatim>\<open>self.model.get(image, ...)\<close>, in the order written.\<close>

definition get_kwargs :: "int list option \<Rightarrow> real \<Rightarrow> bool \<Rightarrow> bool \<Rightarrow> bool \<Rightarrow> int \<Rightarrow> get_opts" where
  "get_kwargs max_size threshold return_face_data extract_embedding extract_ga limit_faces =
     \<lparr>get_max_size = max_size, get_threshold = threshold,
      get_return_face_data = return_face_data,
      get_extract_embedding = extract_embedding, get_extract_ga = extract_ga,
      get_limit_faces = limit_faces\<rparr>"

definition embed ::
  "('w, 'img, 'req) collaborators \<Rightarrow> 'img image_input list \<Rightarrow> int list option \<Rightarrow> real \<Rightarrow> int
     \<Rightarrow> bool \<Rightarrow> bool \<Rightarrow> bool \<Rightarrow> bool \<Rightarrow> 'w \<Rightarrow> (exn + batch_result) \<times> 'w" where
  "embed env images max_size threshold limit_faces return_face_data extract_embedding
     extract_ga return_landmarks w =
     (let out = new_batch_result;
          kw = get_kwargs max_size threshold return_face_data extract_embedding extract_ga
                 limit_faces
      in embed_loop env kw return_landmarks images out w)"

subsection \<open>Processing.embed\_crops\<close>

text \<open>
  \<^verbatim>\<open>__iterate_faces\<close>: one \<^verbatim>\<open>Face(facedata=...)\<close> for every crop without a load failure,
  in order.
\<close>

definition iterate_faces :: "'img image_input list \<Rightarrow> 'img Face list" where
  "iterate_faces crops =
     map (\<lambda>face. Face_of_facedata (image_input.data face))
       (filter (\<lambda>face. image_input.traceback face = None) crops)"

text \<open>\<^verbatim>\<open>dict(status='failed', traceback=image.get('traceback'))\<close>\<close>

definition failed_dict :: "string \<Rightarrow> face_dict" where
  "failed_dict tb = [''status'' \<mapsto> JStr ''failed'', ''traceback'' \<mapsto> JStr tb]"

text \<open>The loop \<^verbatim>\<open>for image in images\<close> inside the \<^verbatim>\<open>try\<close> block.\<close>

fun crops_loop ::
  "('w, 'img, 'req) collaborators \<Rightarrow> 'img image_input list \<Rightarrow> crops_output \<Rightarrow> 'w
     \<Rightarrow> (exn + unit) \<times> crops_output \<times> 'w" where
  "crops_loop env [] out w = (Inr (), out, w)"
| "crops_loop env (img # rest) out w =
     (case image_input.traceback img of
        Some tb \<Rightarrow>
          crops_loop env rest
            (out\<lparr>crops_output.data := crops_output.data out @ [failed_dict tb]\<rparr>) w
      | None \<Rightarrow>
          (case next_face env w of
             (Inl e, w') \<Rightarrow> (Inl e, out, w')
           | (Inr face, w') \<Rightarrow>
               (case serialize_face env face False False of
                  Inl e \<Rightarrow> (Inl e, out, w')
                | Inr fd \<Rightarrow>
                    crops_loop env rest
                      (out\<lparr>crops_output.data := crops_output.data out @ [fd]\<rparr>) w')))"

text \<open>The \<^verbatim>\<open>except Exception\<close> clause of \<^verbatim>\<open>embed_crops\<close>.\<close>

definition crops_except ::
  "('w, 'img, 'req) collaborators \<Rightarrow> exn \<Rightarrow> crops_output \<times> 'w
     \<Rightarrow> (exn + unit) \<times> crops_output \<times> 'w" where
  "crops_except env e s =
     (case s of (out, w) \<Rightarrow>
        (let tb = format_exc env e in
         (Inr (), out\<lparr>crops_output.status := ''failed'',
                      crops_output.traceback := Some tb\<rparr>, w)))"

text \<open>\<^verbatim>\<open>dict(took_ms=None, data=[], status="ok")\<close>\<close>

definition new_crops_output :: crops_output where
  "new_crops_output =
     \<lparr>crops_output.took_ms = None, crops_output.data = [],
      crops_output.status = ''ok'', crops_output.traceback = None\<rparr>"

definition embed_crops ::
  "('w, 'img, 'req) collaborators \<Rightarrow> 'img image_input list \<Rightarrow> bool \<Rightarrow> bool \<Rightarrow> 'w
     \<Rightarrow> (exn + crops_output) \<times> 'w" where
  "embed_crops env images extract_embedding extract_ga w =
     (let (t0, w0) = time env w;
          out = new_crops_output;
          iterator = iterate_faces images;
          w1 = process_faces env iterator extract_embedding extract_ga False w0
      in case try_except (crops_loop env images out w1) (crops_except env) of
           (Inl e, out', w2) \<Rightarrow> (Inl e, w2)
         | (Inr u, out', w2) \<Rightarrow>
             (let (t, w3) = time env w2; took_total = t - t0 in
              (Inr (out'\<lparr>crops_output.took_ms := Some (took_total * 1000)\<rparr>), w3)))"

subsection \<open>Processing.extract\<close>

text \<open>
  \<open>self_max_size\<close> is the attribute \<^verbatim>\<open>self.max_size\<close>; \<^verbatim>\<open>not max_size\<close> holds for \<^verbatim>\<open>None\<close>
  and for the empty list.
\<close>

definition "extract" ::
  "('w, 'img, 'req) collaborators \<Rightarrow> int list \<Rightarrow> 'req \<Rightarrow> int list option \<Rightarrow> real \<Rightarrow> int
     \<Rightarrow> bool \<Rightarrow> bool \<Rightarrow> bool \<Rightarrow> bool \<Rightarrow> bool \<Rightarrow> bool \<Rightarrow> string \<Rightarrow> 'w
     \<Rightarrow> (exn + response) \<times> 'w" where
  "extract env self_max_size images max_size threshold limit_faces embed_only
     return_face_data extract_embedding extract_ga return_landmarks verbose_timings api_ver w =
     (let max_size' = (if max_size = None \<or> max_size = Some [] then Some self_max_size
                       else max_size);
          (t0, w0) = time env w;
          (tl0, w1) = time env w0;
          (images', w2) = get_images env images w1;
          (tl1, w3) = time env w2;
          took_loading = tl1 - tl0
      in if embed_only then
           (case embed_crops env images' extract_embedding extract_ga w3 of
              (Inl e, w4) \<Rightarrow> (Inl e, w4)
            | (Inr fd, w4) \<Rightarrow> (Inr (Crops fd), w4))
         else
           (let (te0, w4) = time env w3 in
            case embed env images' max_size' threshold limit_faces return_face_data
                   extract_embedding extract_ga return_landmarks w4 of
              (Inl e, w5) \<Rightarrow> (Inl e, w5)
            | (Inr out, w5) \<Rightarrow>
                (let (te1, w6) = time env w5;
                     took_embed = te1 - te0;
                     (t1, w7) = time env w6;
                     took_total = t1 - t0;
                     out1 = out\<lparr>took := (took out)\<lparr>total_ms := Some (took_total * 1000)\<rparr>\<rparr>;
                     out2 = (if verbose_timings then
                               out1\<lparr>took := (took out1)
                                     \<lparr>read_imgs_ms := Some (took_loading * 1000),
                                      embed_all_ms := Some (took_embed * 1000)\<rparr>\<rparr>
                             else out1)
                 in (Inr (serialize out2 api_ver), w7))))"

subsection \<open>Notions used to state the properties\<close>

text \<open>
  The world in which \<^verbatim>\<open>embed\<close> starts on the image after the given ones: the loop threads
  the world through the images in order.
\<close>

fun embed_world ::
  "('w, 'img, 'req) collaborators \<Rightarrow> get_opts \<Rightarrow> bool \<Rightarrow> 'img image_input list \<Rightarrow> 'w \<Rightarrow> 'w" where
  "embed_world env kw return_landmarks [] w = w"
| "embed_world env kw return_landmarks (image_data # rest) w =
     embed_world env kw return_landmarks rest
       (snd (embed_image env kw return_landmarks image_data w))"

text \<open>The exception the \<^verbatim>\<open>try\<close> block of \<^verbatim>\<open>embed\<close> raises for one image, if any.\<close>

definition embed_raised ::
  "('w, 'img, 'req) collaborators \<Rightarrow> get_opts \<Rightarrow> bool \<Rightarrow> 'img image_input \<Rightarrow> 'w \<Rightarrow> exn option" where
  "embed_raised env kw return_landmarks image_data w =
     (case embed_try env kw return_landmarks image_data new_faces_dict w of
        (Inl e, s) \<Rightarrow> Some e
      | (Inr u, s) \<Rightarrow> None)"

text \<open>
  The world in which the loop of \<^verbatim>\<open>embed_crops\<close> starts: after the first clock reading and
  the creation of the lazy sequence.
\<close>

definition crops_start ::
  "('w, 'img, 'req) collaborators \<Rightarrow> 'img image_input list \<Rightarrow> bool \<Rightarrow> bool \<Rightarrow> 'w \<Rightarrow> 'w" where
  "crops_start env images extract_embedding extract_ga w =
     process_faces env (iterate_faces images) extract_embedding extract_ga False
       (snd (time env w))"

text \<open>
  What \<^verbatim>\<open>extract\<close> holds when it reaches \<^verbatim>\<open>if embed_only\<close>: the loaded images, and the world
  after two clock readings, the loader and a third clock reading.
\<close>

definition loaded ::
  "('w, 'img, 'req) collaborators \<Rightarrow> 'req \<Rightarrow> 'w \<Rightarrow> 'img image_input list \<times> 'w" where
  "loaded env req w =
     (let (images, w2) = get_images env req (snd (time env (snd (time env w))))
      in (images, snd (time env w2)))"

section \<open>Concrete collaborators and inputs\<close>

text \<open>
  Values on which the theorems below are evaluated. The world of \<open>env0\<close> is a clock tick
  and the faces the lazy sequence still holds; image \<open>13\<close> makes the model raise, a missing
  image makes it raise \<^verbatim>\<open>AttributeError\<close>, descriptor \<open>0\<close> fails to load. The coordinates
  used below and their differences are exactly representable in binary floating point, so
  \<open>float_sub\<close> of \<open>env0\<close> returns the difference itself.
\<close>

text \<open>Reading one key of a returned face dictionary.\<close>

definition result_key :: "exn + face_dict \<Rightarrow> string \<Rightarrow> exn + jval option" where
  "result_key r k = (case r of Inl e \<Rightarrow> Inl e | Inr d \<Rightarrow> Inr (d k))"

type_synonym world0 = "nat \<times> nat Face list"

definition face_A :: "nat Face" where
  "face_A =
     \<lparr>bbox = Some [10, 10, 50, 60],
      landmark = Some [[20, 25], [40, 25], [30, 35], [22, 45], [38, 45]],
      det_score = Some 0.95, gender = JNone, age = JNone,
      embedding_norm = None, normed_embedding = None, facedata = None, num_det = JInt 0,
      mask_prob = None\<rparr>"

definition face_Z :: "nat Face" where
  "face_Z = face_A\<lparr>det_score := Some 0, embedding_norm := Some 0,
                    normed_embedding := Some [0, 0], mask_prob := Some 0\<rparr>"

definition face_R :: "nat Face" where
  "face_R = face_A\<lparr>bbox := Some [10, 10, 50.75, 60]\<rparr>"

definition analysed :: "nat Face \<Rightarrow> nat Face" where
  "analysed f = f\<lparr>embedding_norm := Some 2, normed_embedding := Some [0.6, 0.8]\<rparr>"

definition env0 :: "(world0, nat, nat list) collaborators" where
  "env0 =
     \<lparr>time = (\<lambda>w. (real (fst w), (Suc (fst w), snd w))),
      format_exc = (\<lambda>e. case e of
          AttributeError \<Rightarrow> ''Traceback: AttributeError''
        | IndexError \<Rightarrow> ''Traceback: IndexError''
        | StopIteration \<Rightarrow> ''Traceback: StopIteration''
        | OverflowError \<Rightarrow> ''Traceback: OverflowError''
        | OtherError m \<Rightarrow> ''Traceback: '' @ m),
      imencode_b64 = (\<lambda>x. case x of None \<Rightarrow> Inl (OtherError ''cv2.error'') | Some i \<Rightarrow> Inr ''/9j/''),
      float_sub = (\<lambda>a b. Finite (a - b)),
      cast_overflow = (\<lambda>x. - 9223372036854775808),
      model_get = (\<lambda>x kw w. case x of
          None \<Rightarrow> (Inl AttributeError, w)
        | Some i \<Rightarrow> if i = 13 then (Inl (OtherError ''inference''), w) else (Inr [face_A], w)),
      process_faces = (\<lambda>fs ee ega rfd w. (fst w, map analysed fs)),
      next_face = (\<lambda>w. case snd w of
          [] \<Rightarrow> (Inl StopIteration, w)
        | f # fs \<Rightarrow> if facedata f = Some 13 then (Inl (OtherError ''inference''), (fst w, fs))
                    else (Inr f, (fst w, fs))),
      get_images = (\<lambda>req w.
          (map (\<lambda>n. if n = 0 then \<lparr>image_input.data = None, image_input.traceback = Some ''Traceback: load''\<rparr>
                     else \<lparr>image_input.data = Some n, image_input.traceback = None\<rparr>) req, w))\<rparr>"


text \<open>A batch result, the inputs of scenario A, a batch with a failing model call, and the
  record of \<open>face_A\<close>.\<close>

definition batch_A :: batch_result where
  "batch_A =
     \<lparr>took = \<lparr>total_ms = Some 12, read_imgs_ms = None, embed_all_ms = None\<rparr>,
      batch_result.data =
        [\<lparr>faces_dict.status = ''ok'', faces_dict.took_ms = 5, faces = [init_face_dict face_A],
          faces_dict.traceback = None\<rparr>,
         \<lparr>faces_dict.status = ''failed'', faces_dict.took_ms = 0, faces = [],
          faces_dict.traceback = Some ''Traceback: load''\<rparr>]\<rparr>"

definition images_A :: "nat image_input list" where
  "images_A =
     [\<lparr>image_input.data = Some 5, image_input.traceback = None\<rparr>,
      \<lparr>image_input.data = None, image_input.traceback = Some ''Traceback: load''\<rparr>]"


definition kw_A :: get_opts where
  "kw_A = get_kwargs None 0.6 False True True 0"


definition dict_A :: face_dict where
  "dict_A =
     (init_face_dict face_A)
       (''prob'' \<mapsto> JFloat 0.95,
        ''bbox'' \<mapsto> JList [JInt 10, JInt 10, JInt 50, JInt 60],
        ''size'' \<mapsto> JInt 40)"



section \<open>Properties\<close>

subsection \<open>Which keys each block of serialize\_face writes\<close>

lemma serialize_face_blocks:
  "serialize_face env face return_face_data return_landmarks = Inr d \<longleftrightarrow>
     (\<exists>d1 d2. put_embedding face (init_face_dict face) = Inr d1 \<and>
        put_detection env face return_landmarks d1 = Inr d2 \<and>
        put_facedata env face return_face_data (put_mask face d2) = Inr d)"
  by (auto simp: serialize_face_def split: sum.splits)

lemma init_face_dict_keys:
  "init_face_dict face ''prob'' = Some JNone" "init_face_dict face ''bbox'' = Some JNone"
  "init_face_dict face ''size'' = Some JNone" "init_face_dict face ''landmarks'' = Some JNone"
  "init_face_dict face ''mask_prob'' = Some JNone" "init_face_dict face ''norm'' = Some JNone"
  "init_face_dict face ''vec'' = Some JNone"
  by (simp_all add: init_face_dict_def)

lemma put_embedding_other:
  "put_embedding face d = Inr d' \<Longrightarrow> k \<noteq> ''vec'' \<Longrightarrow> k \<noteq> ''norm'' \<Longrightarrow> d' k = d k"
  by (auto simp: put_embedding_def split: if_splits option.splits)

lemma put_embedding_falsy:
  "\<not> truthy (embedding_norm face) \<Longrightarrow> put_embedding face d = Inr d"
  by (simp add: put_embedding_def)

lemma put_embedding_returns:
  "(truthy (embedding_norm face) \<longrightarrow> normed_embedding face \<noteq> None) \<Longrightarrow>
   \<exists>d'. put_embedding face d = Inr d'"
  by (auto simp: put_embedding_def split: option.splits)

lemma put_landmarks_other:
  "put_landmarks env face return_landmarks d = Inr d' \<Longrightarrow> k \<noteq> ''landmarks'' \<Longrightarrow> d' k = d k"
  by (auto simp: put_landmarks_def split: if_splits option.splits)

lemma put_detection_falsy:
  "\<not> truthy (det_score face) \<Longrightarrow> put_detection env face return_landmarks d = Inr d"
  by (simp add: put_detection_def)

lemma put_detection_truthy:
  assumes "truthy (det_score face)" and "put_detection env face return_landmarks d = Inr d'"
  shows "\<exists>b x. bbox face = Some b \<and> 2 < length b \<and>
           float_sub env (b ! 2) (b ! 0) = Finite x \<and>
           put_landmarks env face return_landmarks
             (d(''prob'' \<mapsto> JFloat (the (det_score face)),
                ''bbox'' \<mapsto> astype_int_tolist env b,
                ''size'' \<mapsto> JInt (py_int x))) = Inr d'"
proof (cases "bbox face")
  case None
  with assms show ?thesis by (simp add: put_detection_def)
next
  case (Some b)
  show ?thesis
  proof (cases "2 < length b")
    case True
    then have g: "getitem b 2 = Inr (b ! 2)" "getitem b 0 = Inr (b ! 0)"
      by (auto simp: getitem_def)
    show ?thesis
    proof (cases "float_sub env (b ! 2) (b ! 0)")
      case (Finite x)
      then have "py_int_result (float_sub env (b ! 2) (b ! 0)) = Inr (py_int x)"
        by (simp add: py_int_result_def)
      with Some True g Finite assms show ?thesis by (simp add: put_detection_def)
    next
      case Overflow
      then have "py_int_result (float_sub env (b ! 2) (b ! 0)) = Inl OverflowError"
        by (simp add: py_int_result_def)
      with Some g assms show ?thesis by (simp add: put_detection_def)
    qed
  next
    case False
    then have "getitem b 2 = Inl IndexError" by (simp add: getitem_def)
    with Some assms show ?thesis by (simp add: put_detection_def)
  qed
qed

lemma put_detection_other:
  assumes "put_detection env face return_landmarks d = Inr d'"
    and "k \<noteq> ''prob''" "k \<noteq> ''bbox''" "k \<noteq> ''size''" "k \<noteq> ''landmarks''"
  shows "d' k = d k"
proof (cases "truthy (det_score face)")
  case False
  with assms(1) show ?thesis by (simp add: put_detection_falsy)
next
  case True
  from put_detection_truthy [OF True assms(1)] obtain b x where
    "put_landmarks env face return_landmarks
       (d(''prob'' \<mapsto> JFloat (the (det_score face)),
          ''bbox'' \<mapsto> astype_int_tolist env b,
          ''size'' \<mapsto> JInt (py_int x))) = Inr d'" by blast
  from put_landmarks_other [OF this assms(5)] assms(2-4) show ?thesis by simp
qed

lemma put_detection_size:
  assumes "truthy (det_score face)" and "put_detection env face return_landmarks d = Inr d'"
  shows "\<exists>b x. bbox face = Some b \<and> 2 < length b \<and>
           float_sub env (b ! 2) (b ! 0) = Finite x \<and>
           d' ''size'' = Some (JInt (py_int x))"
proof -
  from put_detection_truthy [OF assms] obtain b x where
    b: "bbox face = Some b" "2 < length b" "float_sub env (b ! 2) (b ! 0) = Finite x" and
    l: "put_landmarks env face return_landmarks
       (d(''prob'' \<mapsto> JFloat (the (det_score face)),
          ''bbox'' \<mapsto> astype_int_tolist env b,
          ''size'' \<mapsto> JInt (py_int x))) = Inr d'" by blast
  from put_landmarks_other [OF l, of "''size''"]
  have "d' ''size'' = Some (JInt (py_int x))" by simp
  with b show ?thesis by blast
qed

lemma put_mask_other: "k \<noteq> ''mask_prob'' \<Longrightarrow> put_mask face d k = d k"
  by (simp add: put_mask_def)

lemma put_mask_falsy: "\<not> truthy (mask_prob face) \<Longrightarrow> put_mask face d = d"
  by (simp add: put_mask_def)

lemma put_facedata_other:
  "put_facedata env face return_face_data d = Inr d' \<Longrightarrow> k \<noteq> ''facedata'' \<Longrightarrow> d' k = d k"
  by (auto simp: put_facedata_def split: if_splits sum.splits)

lemma put_facedata_returns:
  "(return_face_data \<longrightarrow> (\<exists>s. imencode_b64 env (facedata face) = Inr s)) \<Longrightarrow>
   \<exists>d'. put_facedata env face return_face_data d = Inr d'"
  by (auto simp: put_facedata_def)

lemma serialize_face_falsy_score:
  assumes "\<not> truthy (det_score face)"
    and "serialize_face env face return_face_data return_landmarks = Inr d"
    and "k = ''prob'' \<or> k = ''bbox'' \<or> k = ''size'' \<or> k = ''landmarks''"
  shows "d k = Some JNone"
proof -
  from assms(2) obtain d1 d2 where
    e: "put_embedding face (init_face_dict face) = Inr d1" and
    p: "put_detection env face return_landmarks d1 = Inr d2" and
    f: "put_facedata env face return_face_data (put_mask face d2) = Inr d"
    unfolding serialize_face_blocks by blast
  from p assms(1) have "d2 = d1" by (simp add: put_detection_falsy)
  moreover from assms(3) have "d k = put_mask face d2 k"
    using put_facedata_other [OF f, of k] by auto
  moreover from assms(3) have "put_mask face d2 k = d2 k"
    using put_mask_other [of k face d2] by auto
  moreover from assms(3) have "d1 k = init_face_dict face k"
    using put_embedding_other [OF e, of k] by auto
  moreover from assms(3) have "init_face_dict face k = Some JNone"
    using init_face_dict_keys by auto
  ultimately show ?thesis by simp
qed

lemma serialize_face_falsy_norm:
  assumes "\<not> truthy (embedding_norm face)"
    and "serialize_face env face return_face_data return_landmarks = Inr d"
    and "k = ''vec'' \<or> k = ''norm''"
  shows "d k = Some JNone"
proof -
  from assms(2) obtain d1 d2 where
    e: "put_embedding face (init_face_dict face) = Inr d1" and
    p: "put_detection env face return_landmarks d1 = Inr d2" and
    f: "put_facedata env face return_face_data (put_mask face d2) = Inr d"
    unfolding serialize_face_blocks by blast
  from e assms(1) have "d1 = init_face_dict face" by (simp add: put_embedding_falsy)
  moreover from assms(3) have "d k = put_mask face d2 k"
    using put_facedata_other [OF f, of k] by auto
  moreover from assms(3) have "put_mask face d2 k = d2 k"
    using put_mask_other [of k face d2] by auto
  moreover from assms(3) have "d2 k = d1 k"
    using put_detection_other [OF p, of k] by auto
  moreover from assms(3) have "init_face_dict face k = Some JNone"
    using init_face_dict_keys by auto
  ultimately show ?thesis by simp
qed

lemma serialize_face_falsy_mask:
  assumes "\<not> truthy (mask_prob face)"
    and "serialize_face env face return_face_data return_landmarks = Inr d"
  shows "d ''mask_prob'' = Some JNone"
proof -
  from assms(2) obtain d1 d2 where
    e: "put_embedding face (init_face_dict face) = Inr d1" and
    p: "put_detection env face return_landmarks d1 = Inr d2" and
    f: "put_facedata env face return_face_data (put_mask face d2) = Inr d"
    unfolding serialize_face_blocks by blast
  have "d ''mask_prob'' = put_mask face d2 ''mask_prob''"
    using put_facedata_other [OF f, of "''mask_prob''"] by simp
  also have "\<dots> = d2 ''mask_prob''" using assms(1) by (simp add: put_mask_falsy)
  also have "\<dots> = d1 ''mask_prob''"
    using put_detection_other [OF p, of "''mask_prob''"] by simp
  also have "\<dots> = init_face_dict face ''mask_prob''"
    using put_embedding_other [OF e, of "''mask_prob''"] by simp
  finally show ?thesis by (simp add: init_face_dict_keys)
qed

lemma serialize_face_returns:
  assumes "\<not> truthy (det_score face)"
    and "truthy (embedding_norm face) \<longrightarrow> normed_embedding face \<noteq> None"
    and "return_face_data \<longrightarrow> (\<exists>s. imencode_b64 env (facedata face) = Inr s)"
  shows "\<exists>d. serialize_face env face return_face_data return_landmarks = Inr d"
proof -
  from put_embedding_returns [OF assms(2)] obtain d1 where
    e: "put_embedding face (init_face_dict face) = Inr d1" by blast
  have p: "put_detection env face return_landmarks d1 = Inr d1"
    using assms(1) by (rule put_detection_falsy)
  from put_facedata_returns [OF assms(3)] obtain d where
    "put_facedata env face return_face_data (put_mask face d1) = Inr d" by blast
  with e p show ?thesis unfolding serialize_face_blocks by blast
qed

lemma truthy_simps: "\<not> truthy None" "\<not> truthy (Some 0)" "x \<noteq> 0 \<Longrightarrow> truthy (Some x)"
  by (simp_all add: truthy_def)

text \<open>
  Claim C4. A face whose \<open>det_score\<close> is \<^verbatim>\<open>None\<close> gets a dictionary in which \<^verbatim>\<open>prob\<close>,
  \<^verbatim>\<open>bbox\<close>, \<^verbatim>\<open>size\<close> and \<^verbatim>\<open>landmarks\<close> are \<^verbatim>\<open>None\<close>, whatever the two flags and the
  other attributes are; and the dictionary is returned whenever the embedding block and the
  face-data block do not raise (the detection block is skipped, so a missing box or missing
  landmarks cannot raise).
\<close>

theorem serialize_face_no_score:
  assumes "det_score face = None"
  shows "(\<forall>d. serialize_face env face return_face_data return_landmarks = Inr d \<longrightarrow>
            d ''prob'' = Some JNone \<and> d ''bbox'' = Some JNone \<and> d ''size'' = Some JNone \<and>
            d ''landmarks'' = Some JNone) \<and>
         ((truthy (embedding_norm face) \<longrightarrow> normed_embedding face \<noteq> None) \<and>
          (return_face_data \<longrightarrow> (\<exists>s. imencode_b64 env (facedata face) = Inr s)) \<longrightarrow>
          (\<exists>d. serialize_face env face return_face_data return_landmarks = Inr d))"
proof (intro conjI allI impI)
  from assms have n: "\<not> truthy (det_score face)" by (simp add: truthy_simps)
  fix d assume r: "serialize_face env face return_face_data return_landmarks = Inr d"
  show "d ''prob'' = Some JNone" by (rule serialize_face_falsy_score [OF n r]) simp
  show "d ''bbox'' = Some JNone" by (rule serialize_face_falsy_score [OF n r]) simp
  show "d ''size'' = Some JNone" by (rule serialize_face_falsy_score [OF n r]) simp
  show "d ''landmarks'' = Some JNone" by (rule serialize_face_falsy_score [OF n r]) simp
next
  from assms have n: "\<not> truthy (det_score face)" by (simp add: truthy_simps)
  assume a: "(truthy (embedding_norm face) \<longrightarrow> normed_embedding face \<noteq> None) \<and>
    (return_face_data \<longrightarrow> (\<exists>s. imencode_b64 env (facedata face) = Inr s))"
  from a have a1: "truthy (embedding_norm face) \<longrightarrow> normed_embedding face \<noteq> None" ..
  from a have a2: "return_face_data \<longrightarrow> (\<exists>s. imencode_b64 env (facedata face) = Inr s)" ..
  show "\<exists>d. serialize_face env face return_face_data return_landmarks = Inr d"
    by (rule serialize_face_returns [OF n a1 a2])
qed

text \<open>
  Claim C9. The optional attributes are tested by truth value: a detection score of exactly
  \<open>0\<close> leaves \<^verbatim>\<open>prob\<close>, \<^verbatim>\<open>bbox\<close>, \<^verbatim>\<open>size\<close> and \<^verbatim>\<open>landmarks\<close> at \<^verbatim>\<open>None\<close> for every box
  and both flags, an embedding norm of \<open>0\<close> leaves \<^verbatim>\<open>vec\<close> and \<^verbatim>\<open>norm\<close> at \<^verbatim>\<open>None\<close>, a mask
  probability of \<open>0\<close> leaves \<^verbatim>\<open>mask_prob\<close> at \<^verbatim>\<open>None\<close>; and with score and norm both \<open>0\<close>
  the dictionary is returned whenever the face-data block does not raise.
\<close>

theorem serialize_face_truthiness:
  "(\<forall>d. serialize_face env face return_face_data return_landmarks = Inr d \<longrightarrow>
      (det_score face = Some 0 \<longrightarrow>
         d ''prob'' = Some JNone \<and> d ''bbox'' = Some JNone \<and> d ''size'' = Some JNone \<and>
         d ''landmarks'' = Some JNone) \<and>
      (embedding_norm face = Some 0 \<longrightarrow> d ''vec'' = Some JNone \<and> d ''norm'' = Some JNone) \<and>
      (mask_prob face = Some 0 \<longrightarrow> d ''mask_prob'' = Some JNone)) \<and>
   (det_score face = Some 0 \<and> embedding_norm face = Some 0 \<and>
    (return_face_data \<longrightarrow> (\<exists>s. imencode_b64 env (facedata face) = Inr s)) \<longrightarrow>
      (\<exists>d. serialize_face env face return_face_data return_landmarks = Inr d))"
proof (intro conjI allI impI)
  fix d
  assume r: "serialize_face env face return_face_data return_landmarks = Inr d"
    and "det_score face = Some 0"
  then have n: "\<not> truthy (det_score face)" by (simp add: truthy_simps)
  show "d ''prob'' = Some JNone" by (rule serialize_face_falsy_score [OF n r]) simp
  show "d ''bbox'' = Some JNone" by (rule serialize_face_falsy_score [OF n r]) simp
  show "d ''size'' = Some JNone" by (rule serialize_face_falsy_score [OF n r]) simp
  show "d ''landmarks'' = Some JNone" by (rule serialize_face_falsy_score [OF n r]) simp
next
  fix d
  assume r: "serialize_face env face return_face_data return_landmarks = Inr d"
    and "embedding_norm face = Some 0"
  then have n: "\<not> truthy (embedding_norm face)" by (simp add: truthy_simps)
  show "d ''vec'' = Some JNone" by (rule serialize_face_falsy_norm [OF n r]) simp
  show "d ''norm'' = Some JNone" by (rule serialize_face_falsy_norm [OF n r]) simp
next
  fix d
  assume r: "serialize_face env face return_face_data return_landmarks = Inr d"
    and "mask_prob face = Some 0"
  then have n: "\<not> truthy (mask_prob face)" by (simp add: truthy_simps)
  show "d ''mask_prob'' = Some JNone" by (rule serialize_face_falsy_mask [OF n r])
next
  assume a: "det_score face = Some 0 \<and> embedding_norm face = Some 0 \<and>
    (return_face_data \<longrightarrow> (\<exists>s. imencode_b64 env (facedata face) = Inr s))"
  then have n: "\<not> truthy (det_score face)"
    and m: "truthy (embedding_norm face) \<longrightarrow> normed_embedding face \<noteq> None"
    and f: "return_face_data \<longrightarrow> (\<exists>s. imencode_b64 env (facedata face) = Inr s)"
    by (simp_all add: truthy_simps)
  show "\<exists>d. serialize_face env face return_face_data return_landmarks = Inr d"
    by (rule serialize_face_returns [OF n m f])
qed

text \<open>
  Claim C7, amended. When the detection score is present and not zero, every returned
  dictionary has \<^verbatim>\<open>size\<close> equal to \<^verbatim>\<open>int(bbox[2] - bbox[0])\<close>: the floating-point difference
  of the right and the left coordinate, which is finite, truncated toward zero (and the
  box has at least three coordinates, else the function raised).
\<close>

theorem serialize_face_size:
  assumes "truthy (det_score face)"
    and "serialize_face env face return_face_data return_landmarks = Inr d"
  shows "\<exists>b x. bbox face = Some b \<and> 2 < length b \<and>
             float_sub env (b ! 2) (b ! 0) = Finite x \<and>
             d ''size'' = Some (JInt (py_int x))"
proof -
  from assms(2) obtain d1 d2 where
    p: "put_detection env face return_landmarks d1 = Inr d2" and
    f: "put_facedata env face return_face_data (put_mask face d2) = Inr d"
    unfolding serialize_face_blocks by blast
  have "d ''size'' = put_mask face d2 ''size''"
    using put_facedata_other [OF f, of "''size''"] by simp
  also have "\<dots> = d2 ''size''" by (simp add: put_mask_other)
  finally show ?thesis using put_detection_size [OF assms(1) p] by simp
qed


lemmas sf_defs = serialize_face_def put_embedding_def put_detection_def put_landmarks_def
  put_mask_def put_facedata_def init_face_dict_def

text \<open>
  C4 at a face as the embedding-only path sees it: built from a crop, given an embedding,
  with face data and landmarks both requested.
\<close>

theorem serialize_face_no_score_witness:
  "det_score (analysed (Face_of_facedata (Some 7))) = None \<and>
   (\<exists>d. serialize_face env0 (analysed (Face_of_facedata (Some 7))) True True = Inr d \<and>
        d ''prob'' = Some JNone \<and> d ''bbox'' = Some JNone \<and> d ''size'' = Some JNone \<and>
        d ''landmarks'' = Some JNone)"
proof -
  let ?f = "analysed (Face_of_facedata (Some (7::nat)))"
  have h: "det_score ?f = None" by (simp add: analysed_def Face_of_facedata_def)
  have e: "truthy (embedding_norm ?f) \<longrightarrow> normed_embedding ?f \<noteq> None"
    by (simp add: analysed_def Face_of_facedata_def)
  have i: "True \<longrightarrow> (\<exists>s. imencode_b64 env0 (facedata ?f) = Inr s)"
    by (simp add: analysed_def Face_of_facedata_def env0_def)
  from serialize_face_no_score [OF h, of env0 True True] e i h show ?thesis
    by blast
qed

text \<open>
  C9 at a face with score, norm and mask probability \<open>0\<close>, a bounding box, landmarks, and
  landmarks requested.
\<close>

theorem serialize_face_truthiness_witness:
  "det_score face_Z = Some 0 \<and> embedding_norm face_Z = Some 0 \<and> mask_prob face_Z = Some 0 \<and>
   bbox face_Z = Some [10, 10, 50, 60] \<and> landmark face_Z \<noteq> None \<and>
   (\<exists>d. serialize_face env0 face_Z False True = Inr d \<and>
        d ''prob'' = Some JNone \<and> d ''bbox'' = Some JNone \<and> d ''size'' = Some JNone \<and>
        d ''landmarks'' = Some JNone \<and> d ''vec'' = Some JNone \<and> d ''norm'' = Some JNone \<and>
        d ''mask_prob'' = Some JNone)"
proof -
  have h: "det_score face_Z = Some 0" "embedding_norm face_Z = Some 0"
    "mask_prob face_Z = Some 0" "bbox face_Z = Some [10, 10, 50, 60]" "landmark face_Z \<noteq> None"
    by (simp_all add: face_Z_def face_A_def)
  from serialize_face_truthiness [of env0 face_Z False True] h show ?thesis
    by blast
qed

text \<open>
  C7 at the face of scenario A: score \<open>0.95\<close>, box \<open>[10, 10, 50, 60]\<close>, size \<open>40\<close>.
\<close>

theorem serialize_face_size_witness:
  "truthy (det_score face_A) \<and> bbox face_A = Some [10, 10, 50, 60] \<and>
   float_sub env0 50 10 = Finite 40 \<and>
   result_key (serialize_face env0 face_A False True) ''size'' = Inr (Some (JInt 40))"
proof -
  have t: "truthy (det_score face_A)" by (simp add: truthy_def face_A_def)
  have f: "float_sub env0 50 10 = Finite 40" by (simp add: env0_def)
  have "\<exists>d. serialize_face env0 face_A False True = Inr d"
    by (simp add: sf_defs truthy_def face_A_def getitem_def py_int_result_def f)
  then obtain d where r: "serialize_face env0 face_A False True = Inr d" ..
  from serialize_face_size [OF t r] obtain b x where
    "bbox face_A = Some b" "float_sub env0 (b ! 2) (b ! 0) = Finite x"
    "d ''size'' = Some (JInt (py_int x))" by blast
  then have "d ''size'' = Some (JInt 40)"
    by (auto simp: face_A_def f py_int_def)
  with t r f show ?thesis by (simp add: result_key_def face_A_def)
qed

text \<open>
  Claim C7 as stated fails twice. A face that carries the score \<open>0\<close> and the box
  \<open>[10, 10, 50, 60]\<close> gets \<^verbatim>\<open>size\<close> \<^verbatim>\<open>None\<close>, not \<open>40\<close>. A face with score \<open>0.95\<close> and box
  \<open>[10, 10, 50.75, 60]\<close> has width \<open>40.75\<close>, whose nearest integer is \<open>41\<close>, and gets
  \<^verbatim>\<open>size\<close> \<open>40\<close>.
\<close>

theorem serialize_face_size_counterexample:
  "det_score face_Z = Some 0 \<and> bbox face_Z = Some [10, 10, 50, 60] \<and>
   result_key (serialize_face env0 face_Z False False) ''size'' = Inr (Some JNone) \<and>
   det_score face_R = Some 0.95 \<and> bbox face_R = Some [10, 10, 50.75, 60] \<and>
   round (50.75 - 10 :: real) = 41 \<and>
   result_key (serialize_face env0 face_R False False) ''size'' = Inr (Some (JInt 40))"
  by (simp add: result_key_def sf_defs truthy_def face_Z_def face_R_def face_A_def getitem_def
      py_int_def py_int_result_def round_def env0_def)

subsection \<open>The response serializer\<close>

text \<open>
  Claim C5. For every batch result, version \<^verbatim>\<open>"2"\<close> returns the batch itself and version
  \<^verbatim>\<open>"1"\<close> returns the list of the \<open>faces\<close> lists of its entries: as many lists as entries,
  the \<open>i\<close>-th list being the \<open>faces\<close> of the \<open>i\<close>-th entry.
\<close>

theorem serialize_round_trip:
  "serialize batch ''2'' = V2 batch \<and>
   serialize batch ''1'' = V1 (map faces (batch_result.data batch)) \<and>
   (\<exists>fs. serialize batch ''1'' = V1 fs \<and> length fs = length (batch_result.data batch) \<and>
      (\<forall>i<length (batch_result.data batch). fs ! i = faces (batch_result.data batch ! i)))"
  by (simp add: serialize_def get_serializer_def serializer_v1_def serializer_v2_def)

text \<open>
  C5 at a batch of two entries, one with a face and one failed.
\<close>

theorem serialize_round_trip_witness:
  "length (batch_result.data batch_A) = 2 \<and>
   serialize batch_A ''2'' = V2 batch_A \<and>
   serialize batch_A ''1'' = V1 [[init_face_dict face_A], []]"
proof -
  from serialize_round_trip [of batch_A] obtain fs where
    fs: "serialize batch_A ''1'' = V1 fs" "length fs = length (batch_result.data batch_A)"
      "\<forall>i<length (batch_result.data batch_A). fs ! i = faces (batch_result.data batch_A ! i)"
    and v2: "serialize batch_A ''2'' = V2 batch_A"
    by blast
  have l: "length (batch_result.data batch_A) = 2" by (simp add: batch_A_def)
  from fs(3) l have "fs ! 0 = [init_face_dict face_A]" "fs ! 1 = []"
    by (simp_all add: batch_A_def)
  moreover from fs(2) l have "length fs = 2" by simp
  ultimately have "fs = [[init_face_dict face_A], []]"
    by (cases fs; cases "tl fs") auto
  with fs(1) v2 l show ?thesis by simp
qed

text \<open>
  Claim C6. For every version string other than \<^verbatim>\<open>"1"\<close> and \<^verbatim>\<open>"2"\<close> the serializer does
  what it does for \<^verbatim>\<open>"2"\<close>: it returns the batch itself.
\<close>

theorem serialize_unknown_version:
  assumes "api_ver \<noteq> ''1''" and "api_ver \<noteq> ''2''"
  shows "serialize batch api_ver = serialize batch ''2'' \<and> serialize batch api_ver = V2 batch"
  using assms by (simp add: serialize_def get_serializer_def serializer_v2_def)

text \<open>
  C6 at the version string \<^verbatim>\<open>"3"\<close>.
\<close>

theorem serialize_unknown_version_witness:
  "''3'' \<noteq> ''1'' \<and> ''3'' \<noteq> ''2'' \<and> serialize batch_A ''3'' = serialize batch_A ''2'' \<and>
   serialize batch_A ''3'' = V2 batch_A"
proof -
  have a: "''3'' \<noteq> ''1''" and b: "''3'' \<noteq> ''2''" by simp_all
  from serialize_unknown_version [OF a b, of batch_A] a b show ?thesis by blast
qed

subsection \<open>embed: one image\<close>

lemma embed_image_cases:
  "embed_image env kw return_landmarks image_data w =
     (case embed_try env kw return_landmarks image_data new_faces_dict w of
        (Inl e, d, w') \<Rightarrow>
          (Inr (d\<lparr>faces_dict.status := ''failed'',
                   faces_dict.traceback := Some (format_exc env e)\<rparr>), w')
      | (Inr u, d, w') \<Rightarrow> (Inr d, w'))"
  by (simp add: embed_image_def try_except_def embed_except_def Let_def
      split: prod.splits sum.splits)

lemma embed_image_returns:
  "\<exists>d w'. embed_image env kw return_landmarks image_data w = (Inr d, w')"
  by (simp add: embed_image_cases split: prod.splits sum.splits)

lemma serialize_faces_keeps:
  "serialize_faces env rfd rl fs d = (r, d') \<Longrightarrow>
   faces_dict.status d' = faces_dict.status d \<and> faces_dict.traceback d' = faces_dict.traceback d"
  by (induction fs arbitrary: d) (auto split: sum.splits)

lemma embed_try_Inr:
  assumes "embed_try env kw return_landmarks image_data new_faces_dict w = (Inr u, d, w')"
  shows "(\<forall>tb. image_input.traceback image_data = Some tb \<longrightarrow>
            faces_dict.status d = ''failed'' \<and> faces_dict.traceback d = Some tb \<and> faces d = []) \<and>
         (image_input.traceback image_data = None \<longrightarrow> faces_dict.status d = ''ok'')"
  using assms
  by (auto simp: embed_try_def new_faces_dict_def Let_def split: prod.splits sum.splits if_splits)

lemma embed_try_Inl:
  assumes "embed_try env kw return_landmarks image_data new_faces_dict w = (Inl e, d, w')"
  shows "image_input.traceback image_data = None"
  using assms
  by (auto simp: embed_try_def Let_def split: prod.splits sum.splits if_splits)

lemma embed_image_status:
  assumes "embed_image env kw return_landmarks image_data w = (Inr d, w')"
  shows "(\<forall>e. embed_raised env kw return_landmarks image_data w = Some e \<longrightarrow>
            faces_dict.status d = ''failed'' \<and>
            faces_dict.traceback d = Some (format_exc env e)) \<and>
         (\<forall>tb. image_input.traceback image_data = Some tb \<longrightarrow>
            faces_dict.status d = ''failed'' \<and> faces_dict.traceback d = Some tb \<and> faces d = []) \<and>
         (image_input.traceback image_data = None \<and>
          embed_raised env kw return_landmarks image_data w = None \<longrightarrow>
            faces_dict.status d = ''ok'')"
proof (cases "embed_try env kw return_landmarks image_data new_faces_dict w")
  case (fields r d0 w0)
  show ?thesis
  proof (cases r)
    case (Inl e)
    with fields assms have "d = d0\<lparr>faces_dict.status := ''failed'',
        faces_dict.traceback := Some (format_exc env e)\<rparr>"
      by (simp add: embed_image_cases)
    moreover from fields Inl have "image_input.traceback image_data = None"
      by (auto dest: embed_try_Inl)
    moreover from fields Inl have "embed_raised env kw return_landmarks image_data w = Some e"
      by (simp add: embed_raised_def)
    ultimately show ?thesis by simp
  next
    case (Inr u)
    with fields assms have "d = d0" by (simp add: embed_image_cases)
    moreover from fields Inr have "embed_raised env kw return_landmarks image_data w = None"
      by (simp add: embed_raised_def)
    moreover note embed_try_Inr [of env kw return_landmarks image_data w u d0 w0]
    ultimately show ?thesis using fields Inr by simp
  qed
qed


subsection \<open>embed: the loop\<close>

lemma embed_world_snoc:
  "embed_world env kw rl (xs @ [x]) w =
     snd (embed_image env kw rl x (embed_world env kw rl xs w))"
  by (induction xs arbitrary: w) simp_all

lemma embed_loop_result:
  "\<exists>ds. embed_loop env kw rl images out w =
          (Inr (out\<lparr>batch_result.data := batch_result.data out @ ds\<rparr>),
           embed_world env kw rl images w) \<and>
        length ds = length images \<and>
        (\<forall>i<length images.
           fst (embed_image env kw rl (images ! i) (embed_world env kw rl (take i images) w)) =
           Inr (ds ! i))"
proof (induction images arbitrary: out w)
  case Nil
  show ?case by simp
next
  case (Cons x xs)
  from embed_image_returns [of env kw rl x w] obtain d w1 where
    x: "embed_image env kw rl x w = (Inr d, w1)" by blast
  let ?out = "out\<lparr>batch_result.data := batch_result.data out @ [d]\<rparr>"
  from Cons.IH [of ?out w1] obtain ds where
    l: "embed_loop env kw rl xs ?out w1 =
          (Inr (?out\<lparr>batch_result.data := batch_result.data ?out @ ds\<rparr>),
           embed_world env kw rl xs w1)" and
    n: "length ds = length xs" and
    a: "\<forall>i<length xs.
          fst (embed_image env kw rl (xs ! i) (embed_world env kw rl (take i xs) w1)) =
          Inr (ds ! i)"
    by blast
  have "embed_loop env kw rl (x # xs) out w =
      (Inr (out\<lparr>batch_result.data := batch_result.data out @ (d # ds)\<rparr>),
       embed_world env kw rl (x # xs) w)"
    using x l by simp
  moreover have "length (d # ds) = length (x # xs)" using n by simp
  moreover have "\<forall>i<length (x # xs).
      fst (embed_image env kw rl ((x # xs) ! i) (embed_world env kw rl (take i (x # xs)) w)) =
      Inr ((d # ds) ! i)"
  proof (intro allI impI)
    fix i assume i: "i < length (x # xs)"
    show "fst (embed_image env kw rl ((x # xs) ! i)
              (embed_world env kw rl (take i (x # xs)) w)) = Inr ((d # ds) ! i)"
    proof (cases i)
      case 0
      with x show ?thesis by simp
    next
      case (Suc j)
      with i have "j < length xs" by simp
      with a have "fst (embed_image env kw rl (xs ! j) (embed_world env kw rl (take j xs) w1)) =
          Inr (ds ! j)" by blast
      with Suc x show ?thesis by simp
    qed
  qed
  ultimately show ?case by blast
qed

lemma embed_result:
  "\<exists>out. embed env images max_size threshold limit_faces return_face_data extract_embedding
            extract_ga return_landmarks w =
          (Inr out,
           embed_world env
             (get_kwargs max_size threshold return_face_data extract_embedding extract_ga
                limit_faces) return_landmarks images w) \<and>
        took out = took new_batch_result \<and>
        length (batch_result.data out) = length images \<and>
        (\<forall>i<length images.
           fst (embed_image env
                  (get_kwargs max_size threshold return_face_data extract_embedding extract_ga
                     limit_faces) return_landmarks (images ! i)
                  (embed_world env
                     (get_kwargs max_size threshold return_face_data extract_embedding
                        extract_ga limit_faces) return_landmarks (take i images) w)) =
           Inr (batch_result.data out ! i))"
proof -
  let ?kw = "get_kwargs max_size threshold return_face_data extract_embedding extract_ga
               limit_faces"
  from embed_loop_result [of env ?kw return_landmarks images new_batch_result w]
  obtain ds where
    l: "embed_loop env ?kw return_landmarks images new_batch_result w =
          (Inr (new_batch_result\<lparr>batch_result.data := batch_result.data new_batch_result @ ds\<rparr>),
           embed_world env ?kw return_landmarks images w)" and
    n: "length ds = length images" and
    a: "\<forall>i<length images.
          fst (embed_image env ?kw return_landmarks (images ! i)
                 (embed_world env ?kw return_landmarks (take i images) w)) = Inr (ds ! i)"
    by blast
  let ?out = "new_batch_result\<lparr>batch_result.data := batch_result.data new_batch_result @ ds\<rparr>"
  have d: "batch_result.data ?out = ds" by (simp add: new_batch_result_def)
  have "embed env images max_size threshold limit_faces return_face_data extract_embedding
          extract_ga return_landmarks w =
        (Inr ?out, embed_world env ?kw return_landmarks images w)"
    using l by (simp add: embed_def)
  moreover have "took ?out = took new_batch_result" by simp
  moreover have "length (batch_result.data ?out) = length images" using n d by simp
  moreover have "\<forall>i<length images.
      fst (embed_image env ?kw return_landmarks (images ! i)
             (embed_world env ?kw return_landmarks (take i images) w)) =
      Inr (batch_result.data ?out ! i)"
    using a d by simp
  ultimately show ?thesis by blast
qed


subsection \<open>embed: claims\<close>

text \<open>
  Claim C1. \<^verbatim>\<open>embed\<close> returns a batch whose \<open>data\<close> has one entry per input image, and
  entry \<open>i\<close> is the dictionary the loop body builds for image \<open>i\<close>, in the world left by
  the images before it. For an image that carries a load failure the entry is
  \<open>failed\<close>, holds that failure as its traceback and has no faces.
\<close>

theorem embed_alignment:
  "\<exists>out w'. embed env images max_size threshold limit_faces return_face_data extract_embedding
              extract_ga return_landmarks w = (Inr out, w') \<and>
     length (batch_result.data out) = length images \<and>
     (\<forall>i<length images.
        fst (embed_image env
               (get_kwargs max_size threshold return_face_data extract_embedding extract_ga
                  limit_faces) return_landmarks (images ! i)
               (embed_world env
                  (get_kwargs max_size threshold return_face_data extract_embedding
                     extract_ga limit_faces) return_landmarks (take i images) w)) =
        Inr (batch_result.data out ! i) \<and>
        (\<forall>tb. image_input.traceback (images ! i) = Some tb \<longrightarrow>
           faces_dict.status (batch_result.data out ! i) = ''failed'' \<and>
           faces_dict.traceback (batch_result.data out ! i) = Some tb \<and>
           faces (batch_result.data out ! i) = []))"
proof -
  let ?kw = "get_kwargs max_size threshold return_face_data extract_embedding extract_ga
               limit_faces"
  from embed_result [of env images max_size threshold limit_faces return_face_data
      extract_embedding extract_ga return_landmarks w]
  obtain out where
    e: "embed env images max_size threshold limit_faces return_face_data extract_embedding
          extract_ga return_landmarks w =
        (Inr out, embed_world env ?kw return_landmarks images w)" and
    n: "length (batch_result.data out) = length images" and
    a: "\<forall>i<length images.
          fst (embed_image env ?kw return_landmarks (images ! i)
                 (embed_world env ?kw return_landmarks (take i images) w)) =
          Inr (batch_result.data out ! i)"
    by blast
  have "\<forall>i<length images.
      fst (embed_image env ?kw return_landmarks (images ! i)
             (embed_world env ?kw return_landmarks (take i images) w)) =
      Inr (batch_result.data out ! i) \<and>
      (\<forall>tb. image_input.traceback (images ! i) = Some tb \<longrightarrow>
         faces_dict.status (batch_result.data out ! i) = ''failed'' \<and>
         faces_dict.traceback (batch_result.data out ! i) = Some tb \<and>
         faces (batch_result.data out ! i) = [])"
  proof (intro allI impI)
    fix i assume i: "i < length images"
    let ?w = "embed_world env ?kw return_landmarks (take i images) w"
    from a i have f: "fst (embed_image env ?kw return_landmarks (images ! i) ?w) =
        Inr (batch_result.data out ! i)" by blast
    then have "embed_image env ?kw return_landmarks (images ! i) ?w =
        (Inr (batch_result.data out ! i),
         snd (embed_image env ?kw return_landmarks (images ! i) ?w))"
      by (simp add: prod_eq_iff)
    from embed_image_status [OF this] f
    show "fst (embed_image env ?kw return_landmarks (images ! i) ?w) =
        Inr (batch_result.data out ! i) \<and>
        (\<forall>tb. image_input.traceback (images ! i) = Some tb \<longrightarrow>
           faces_dict.status (batch_result.data out ! i) = ''failed'' \<and>
           faces_dict.traceback (batch_result.data out ! i) = Some tb \<and>
           faces (batch_result.data out ! i) = [])"
      by blast
  qed
  with e n show ?thesis by blast
qed

lemma embed_raised_sources:
  "embed_raised env kw return_landmarks image_data w = Some e \<longleftrightarrow>
     image_input.traceback image_data = None \<and>
     (fst (model_get env (image_input.data image_data) kw (snd (time env w))) = Inl e \<or>
      (\<exists>fs. fst (model_get env (image_input.data image_data) kw (snd (time env w))) = Inr fs \<and>
         fst (serialize_faces env (get_return_face_data kw) return_landmarks fs new_faces_dict) =
         Inl e))"
  by (auto simp: embed_raised_def embed_try_def Let_def split: prod.splits sum.splits)


subsection \<open>embed on the concrete collaborators\<close>

lemma serialize_face_A: "serialize_face env0 face_A False False = Inr dict_A"
  by (simp add: sf_defs dict_A_def face_A_def truthy_def getitem_def astype_int_tolist_def
      astype_int_def py_int_def py_int_result_def env0_def)

lemma embed_try_env0_ok:
  "n \<noteq> 13 \<Longrightarrow>
   embed_try env0 kw_A False \<lparr>image_input.data = Some n, image_input.traceback = None\<rparr>
     new_faces_dict (c, fs) =
     (Inr (), \<lparr>faces_dict.status = ''ok'', faces_dict.took_ms = 1000, faces = [dict_A],
              faces_dict.traceback = None\<rparr>, (Suc (Suc c), fs))"
  by (simp add: embed_try_def env0_def kw_A_def get_kwargs_def new_faces_dict_def
      serialize_face_A [unfolded env0_def])






text \<open>
  C1 on scenario A: image 0 loads and has one face of size \<open>40\<close>, image 1 failed to load.
\<close>

theorem embed_alignment_witness:
  "\<exists>out w'. embed env0 images_A None 0.6 0 False True True False (0, []) = (Inr out, w') \<and>
     length (batch_result.data out) = 2 \<and>
     faces_dict.status (batch_result.data out ! 0) = ''ok'' \<and>
     faces (batch_result.data out ! 0) = [dict_A] \<and>
     dict_A ''size'' = Some (JInt 40) \<and>
     faces_dict.status (batch_result.data out ! 1) = ''failed'' \<and>
     faces_dict.traceback (batch_result.data out ! 1) = Some ''Traceback: load'' \<and>
     faces (batch_result.data out ! 1) = []"
proof -
  from embed_alignment [of env0 images_A None "0.6" 0 False True True False "(0, [])"]
  obtain out w' where
    e: "embed env0 images_A None 0.6 0 False True True False (0, []) = (Inr out, w')" and
    n: "length (batch_result.data out) = length images_A" and
    a: "\<forall>i<length images_A.
          fst (embed_image env0 kw_A False (images_A ! i)
                 (embed_world env0 kw_A False (take i images_A) (0, []))) =
          Inr (batch_result.data out ! i) \<and>
          (\<forall>tb. image_input.traceback (images_A ! i) = Some tb \<longrightarrow>
             faces_dict.status (batch_result.data out ! i) = ''failed'' \<and>
             faces_dict.traceback (batch_result.data out ! i) = Some tb \<and>
             faces (batch_result.data out ! i) = [])"
    unfolding kw_A_def by blast
  have l: "length images_A = 2" by (simp add: images_A_def)
  have i0: "0 < length images_A" and i1: "1 < length images_A" by (simp_all add: l)
  from a i0 have "fst (embed_image env0 kw_A False (images_A ! 0)
      (embed_world env0 kw_A False (take 0 images_A) (0, []))) = Inr (batch_result.data out ! 0)"
    by blast
  then have d0: "batch_result.data out ! 0 =
      \<lparr>faces_dict.status = ''ok'', faces_dict.took_ms = 1000, faces = [dict_A],
       faces_dict.traceback = None\<rparr>"
    by (simp add: images_A_def embed_image_cases embed_try_env0_ok)
  from a i1 have "\<forall>tb. image_input.traceback (images_A ! 1) = Some tb \<longrightarrow>
      faces_dict.status (batch_result.data out ! 1) = ''failed'' \<and>
      faces_dict.traceback (batch_result.data out ! 1) = Some tb \<and>
      faces (batch_result.data out ! 1) = []"
    by blast
  then have d1: "faces_dict.status (batch_result.data out ! 1) = ''failed'' \<and>
      faces_dict.traceback (batch_result.data out ! 1) = Some ''Traceback: load'' \<and>
      faces (batch_result.data out ! 1) = []"
    by (simp add: images_A_def)
  have "dict_A ''size'' = Some (JInt 40)" by (simp add: dict_A_def)
  with e n l d0 d1 show ?thesis by simp
qed


subsection \<open>embed\_crops: the loop and its abort\<close>

lemma embed_crops_cases:
  "embed_crops env images extract_embedding extract_ga w =
     (case crops_loop env images new_crops_output
             (crops_start env images extract_embedding extract_ga w) of
        (Inl e, out, w2) \<Rightarrow>
          (Inr (out\<lparr>crops_output.status := ''failed'',
                     crops_output.traceback := Some (format_exc env e),
                     crops_output.took_ms :=
                       Some ((fst (time env w2) - fst (time env w)) * 1000)\<rparr>),
           snd (time env w2))
      | (Inr u, out, w2) \<Rightarrow>
          (Inr (out\<lparr>crops_output.took_ms :=
                       Some ((fst (time env w2) - fst (time env w)) * 1000)\<rparr>),
           snd (time env w2)))"
  by (simp add: embed_crops_def crops_start_def try_except_def crops_except_def Let_def
      split: prod.splits sum.splits)

lemma crops_loop_keeps:
  "crops_loop env xs out w = (r, out', w') \<Longrightarrow>
   crops_output.status out' = crops_output.status out \<and>
   crops_output.traceback out' = crops_output.traceback out \<and>
   (\<exists>ds. crops_output.data out' = crops_output.data out @ ds \<and>
      (case r of Inr u \<Rightarrow> length ds = length xs | Inl e \<Rightarrow> length ds < length xs))"
proof (induction xs arbitrary: out w)
  case Nil
  then show ?case by auto
next
  case (Cons x xs)
  show ?case
  proof (cases "image_input.traceback x")
    case (Some tb)
    let ?out = "out\<lparr>crops_output.data := crops_output.data out @ [failed_dict tb]\<rparr>"
    from Cons.prems Some have "crops_loop env xs ?out w = (r, out', w')" by simp
    from Cons.IH [OF this] show ?thesis by (auto split: sum.splits)
  next
    case None
    show ?thesis
    proof (cases "next_face env w")
      case (Pair nf w1)
      show ?thesis
      proof (cases nf)
        case (Inl e)
        with Cons.prems None Pair show ?thesis by auto
      next
        case (Inr face)
        show ?thesis
        proof (cases "serialize_face env face False False")
          case (Inl e)
          with Cons.prems None Pair \<open>nf = Inr face\<close> show ?thesis by auto
        next
          case (Inr fd)
          let ?out = "out\<lparr>crops_output.data := crops_output.data out @ [fd]\<rparr>"
          from Cons.prems None Pair \<open>nf = Inr face\<close> Inr
          have "crops_loop env xs ?out w1 = (r, out', w')" by simp
          from Cons.IH [OF this] show ?thesis by (auto split: sum.splits)
        qed
      qed
    qed
  qed
qed


lemma embed_crops_returns:
  "\<exists>out w'. embed_crops env images extract_embedding extract_ga w = (Inr out, w') \<and>
     crops_output.took_ms out \<noteq> None \<and>
     (crops_output.status out = ''ok'' \<and> crops_output.traceback out = None \<and>
        length (crops_output.data out) = length images \<or>
      crops_output.status out = ''failed'' \<and> crops_output.traceback out \<noteq> None \<and>
        length (crops_output.data out) < length images)"
proof (cases "crops_loop env images new_crops_output
    (crops_start env images extract_embedding extract_ga w)")
  case (fields r out w2)
  from crops_loop_keeps [OF fields] obtain ds where
    k: "crops_output.status out = ''ok''" "crops_output.traceback out = None"
      "crops_output.data out = ds"
      "case r of Inr u \<Rightarrow> length ds = length images | Inl e \<Rightarrow> length ds < length images"
    by (auto simp: new_crops_output_def)
  show ?thesis
  proof (cases r)
    case (Inl e)
    with fields k show ?thesis by (simp add: embed_crops_cases)
  next
    case (Inr u)
    with fields k show ?thesis by (simp add: embed_crops_cases)
  qed
qed


subsection \<open>extract with the embed-only flag\<close>

lemma extract_embed_only_cases:
  "extract env self_max_size req max_size threshold limit_faces True return_face_data
     extract_embedding extract_ga return_landmarks verbose_timings api_ver w =
   (case embed_crops env (fst (loaded env req w)) extract_embedding extract_ga
           (snd (loaded env req w)) of
      (Inl e, w4) \<Rightarrow> (Inl e, w4)
    | (Inr fd, w4) \<Rightarrow> (Inr (Crops fd), w4))"
  by (simp add: extract_def loaded_def Let_def split: prod.splits)

text \<open>
  Claim C10. With \<open>embed_only\<close> set, \<^verbatim>\<open>extract\<close> returns the dictionary of \<^verbatim>\<open>embed_crops\<close> on
  the loaded images as it is, a \<open>Crops\<close> response: it has \<open>took_ms\<close> set, a status
  \<open>ok\<close> or \<open>failed\<close> and the flat \<open>data\<close> list, and no \<open>took\<close> dictionary. The
  result is the same for every API version and every value of the verbose-timing flag.
\<close>

theorem extract_embed_only:
  "\<exists>out w'. extract env self_max_size req max_size threshold limit_faces True return_face_data
              extract_embedding extract_ga return_landmarks verbose_timings api_ver w =
            (Inr (Crops out), w') \<and>
     embed_crops env (fst (loaded env req w)) extract_embedding extract_ga
       (snd (loaded env req w)) = (Inr out, w') \<and>
     crops_output.took_ms out \<noteq> None \<and>
     (crops_output.status out = ''ok'' \<or> crops_output.status out = ''failed'') \<and>
     (\<forall>verbose_timings' api_ver'.
        extract env self_max_size req max_size threshold limit_faces True return_face_data
          extract_embedding extract_ga return_landmarks verbose_timings' api_ver' w =
        (Inr (Crops out), w'))"
proof -
  from embed_crops_returns [of env "fst (loaded env req w)" extract_embedding extract_ga
      "snd (loaded env req w)"]
  obtain out w' where
    c: "embed_crops env (fst (loaded env req w)) extract_embedding extract_ga
          (snd (loaded env req w)) = (Inr out, w')" and
    t: "crops_output.took_ms out \<noteq> None" and
    s: "crops_output.status out = ''ok'' \<or> crops_output.status out = ''failed''"
    by blast
  from c have "\<And>vt av. extract env self_max_size req max_size threshold limit_faces True
      return_face_data extract_embedding extract_ga return_landmarks vt av w =
      (Inr (Crops out), w')"
    by (simp add: extract_embed_only_cases)
  with c t s show ?thesis by blast
qed


subsection \<open>No exception escapes\<close>






subsection \<open>embed\_crops and extract on the concrete collaborators\<close>







end
